theory Spec2Isabelle
  imports Complex_Main
begin

section \<open>The backtester front end (src/frontend/frontend.py)\<close>

text \<open>
  The script is a Streamlit page: every interaction re-executes it from top to bottom, the
  page shows what that execution rendered, and only \<open>st.session_state\<close> survives from
  one execution to the next. The model follows that shape: a session record, the widget
  values of one execution, the backend as the answers it gives, and the list of elements an
  execution renders.
\<close>

subsection \<open>Values\<close>

text \<open>
  A JSON scalar as Python reads it. A number is kept as its exact value (a Python int, or the
  rational a finite binary64 equals); \<open>JNull\<close> is Python's \<open>None\<close>.
\<close>

datatype jval = JNum rat | JStr string | JBool bool | JNull

text \<open>A JSON object with its keys in order, as \<open>response.json()\<close> yields a dict.\<close>

type_synonym jobj = "(string \<times> jval) list"

text \<open>\<open>d.get(k, default)\<close>.\<close>

definition dict_get :: "jobj \<Rightarrow> string \<Rightarrow> jval \<Rightarrow> jval" where
  "dict_get d k dflt = (case map_of d k of None \<Rightarrow> dflt | Some v \<Rightarrow> v)"

text \<open>The exceptions the submit branch can meet; all of them are caught by its \<open>except Exception\<close>.\<close>

datatype exn =
    RequestException string
  | ZeroDivisionError
  | KeyError "string list"
  | ValueError
  | TypeError

subsection \<open>Session state and widgets\<close>

text \<open>
  The keys of \<open>st.session_state\<close> the script uses. \<open>exchanges\<close> and \<open>symbols\<close> are written
  by the script (\<open>None\<close>: the key is absent). \<open>selected_exchange\<close> and \<open>selected_symbol\<close>
  are widget keys that Streamlit maintains: \<open>selected_exchange\<close> is always present once the
  select box of line 61 has run (\<open>None\<close>: Python's \<open>None\<close>, the box had no option), and
  \<open>selected_symbol\<close> is present only when the select box of line 77 has been rendered
  (\<open>None\<close>: the key is absent).
\<close>

record session =
  exchanges :: "string list option"
  symbols :: "string list option"
  selected_exchange :: "string option"
  selected_symbol :: "string option"

text \<open>The values the sidebar widgets return in one execution (lines 88 to 140).\<close>

record widgets =
  username :: string
  rsi_period :: int
  buy_threshold :: rat
  sell_threshold :: rat
  ma_period :: int
  trade_type :: string
  strategy :: string
  use_scratch_rsi :: bool
  use_csv :: bool

subsection \<open>The request payload (lines 148 to 160)\<close>

definition opt_jval :: "string option \<Rightarrow> jval" where
  "opt_jval x = (case x of None \<Rightarrow> JNull | Some s \<Rightarrow> JStr s)"

text \<open>\<open>st.session_state.get("selected_symbol", "BTC/USDT")\<close>.\<close>

definition payload_symbol :: "session \<Rightarrow> string" where
  "payload_symbol ss = (case selected_symbol ss of None \<Rightarrow> ''BTC/USDT'' | Some s \<Rightarrow> s)"

definition payload :: "session \<Rightarrow> widgets \<Rightarrow> jobj" where
  "payload ss w =
     [(''exchange'', opt_jval (selected_exchange ss)),
      (''symbol'', JStr (payload_symbol ss)),
      (''username'', JStr (username w)),
      (''rsi_period'', JNum (of_int (rsi_period w))),
      (''buy_threshold'', JNum (buy_threshold w)),
      (''sell_threshold'', JNum (sell_threshold w)),
      (''trade_type'', JStr (trade_type w)),
      (''strategy'', JStr (strategy w)),
      (''ma_period'', JNum (of_int (ma_period w))),
      (''use_scratch_rsi'', JBool (use_scratch_rsi w)),
      (''use_csv'', JBool (use_csv w))]"

subsection \<open>Python's number formatting\<close>

definition digit_char :: "nat \<Rightarrow> char" where
  "digit_char d = char_of (48 + d)"

fun str_nat :: "nat \<Rightarrow> string" where
  "str_nat n = (if n < 10 then [digit_char n] else str_nat (n div 10) @ [digit_char (n mod 10)])"

declare str_nat.simps [simp del]

text \<open>\<open>str(n)\<close> of a Python int.\<close>

definition str_int :: "int \<Rightarrow> string" where
  "str_int i = (if i < 0 then ''-'' @ str_nat (nat (- i)) else str_nat (nat i))"

text \<open>Rounding to the nearest integer, a tie going to the even one.\<close>

definition round_half_even :: "rat \<Rightarrow> int" where
  "round_half_even x =
     (let f = \<lfloor>x\<rfloor>; d = x - of_int f
      in if d < 1 / 2 then f else if 1 / 2 < d then f + 1 else if even f then f else f + 1)"

text \<open>
  \<open>f"{x:.2f}"\<close> of a finite number: CPython prints the exact value of the float correctly
  rounded to two places (a tie to the even digit), with the sign of a negative number kept
  when the digits are all zero.
\<close>

definition format_2f :: "rat \<Rightarrow> string" where
  "format_2f x =
     (let n = nat (round_half_even (\<bar>x\<bar> * 100))
      in (if x < 0 then ''-'' else []) @ str_nat (n div 100) @ ''.''
           @ [digit_char (n mod 100 div 10), digit_char (n mod 10)])"

text \<open>
  The same on a value: a bool formats as the int it is, a string has no format code
  \<open>f\<close> (ValueError), \<open>None\<close> accepts no format string (TypeError).
\<close>

definition format_2f_val :: "jval \<Rightarrow> exn + string" where
  "format_2f_val v =
     (case v of
        JNum x \<Rightarrow> Inr (format_2f x)
      | JBool b \<Rightarrow> Inr (format_2f (of_bool b))
      | JStr s \<Rightarrow> Inl ValueError
      | JNull \<Rightarrow> Inl TypeError)"

subsection \<open>Binary64 arithmetic of the win rate (line 177)\<close>

fun bit_length :: "nat \<Rightarrow> nat" where
  "bit_length n = (if n = 0 then 0 else Suc (bit_length (n div 2)))"

declare bit_length.simps [simp del]

definition pow2 :: "int \<Rightarrow> rat" where
  "pow2 e = (if 0 \<le> e then 2 ^ nat e else 1 / 2 ^ nat (- e))"

text \<open>The exponent of a positive rational: the \<open>d\<close> with \<open>2 ^ d \<le> x < 2 ^ (d + 1)\<close>.\<close>

definition ilog2 :: "rat \<Rightarrow> int" where
  "ilog2 x =
     (let (p, q) = quotient_of x;
          d = int (bit_length (nat p)) - int (bit_length (nat q))
      in if pow2 d \<le> x then d else d - 1)"

text \<open>
  The binary64 nearest to a rational (53 significant bits, a tie to the even one), for
  values in the normal range of the format.
\<close>

definition binary64 :: "rat \<Rightarrow> rat" where
  "binary64 x =
     (if x = 0 then 0
      else let e = ilog2 \<bar>x\<bar> - 52 in of_int (round_half_even (x / pow2 e)) * pow2 e)"

text \<open>\<open>int(x)\<close> of a float: truncation towards zero.\<close>

definition int_of_float :: "rat \<Rightarrow> int" where
  "int_of_float x = (if x < 0 then - \<lfloor>- x\<rfloor> else \<lfloor>x\<rfloor>)"

text \<open>The operand of an arithmetic operator: a number, or a bool as the int it is.\<close>

definition number_of :: "jval \<Rightarrow> rat option" where
  "number_of v = (case v of JNum x \<Rightarrow> Some x | JBool b \<Rightarrow> Some (of_bool b) | _ \<Rightarrow> None)"

text \<open>
  \<open>int(winning/total*100)\<close>: a true division, which raises on a zero divisor, a
  multiplication, each rounded to binary64, and the truncation.
\<close>

definition win_rate :: "jval \<Rightarrow> jval \<Rightarrow> exn + int" where
  "win_rate winning tot =
     (case (number_of winning, number_of tot) of
        (Some a, Some b) \<Rightarrow>
          if b = 0 then Inl ZeroDivisionError
          else Inr (int_of_float (binary64 (binary64 (a / b) * 100)))
      | _ \<Rightarrow> Inl TypeError)"

section \<open>Properties\<close>

text \<open>
  C6. Whatever the session and the widgets hold, the payload has exactly the eleven keys
  exchange, symbol, username, rsi_period, buy_threshold, sell_threshold, trade_type,
  strategy, ma_period, use_scratch_rsi and use_csv, in that order, whatever the strategy;
  rsi_period and the two thresholds carry the widgets' values also for strategy ZEN with
  the custom RSI switched on; and the symbol is BTC/USDT when the session has no
  selected symbol.
\<close>

theorem payload_has_all_fields:
  "map fst (payload ss w) =
     [''exchange'', ''symbol'', ''username'', ''rsi_period'', ''buy_threshold'',
      ''sell_threshold'', ''trade_type'', ''strategy'', ''ma_period'', ''use_scratch_rsi'',
      ''use_csv'']
   \<and> map_of (payload ss (w\<lparr>strategy := ''ZEN'', use_scratch_rsi := True\<rparr>)) ''rsi_period''
       = Some (JNum (of_int (rsi_period w)))
   \<and> map_of (payload ss (w\<lparr>strategy := ''ZEN'', use_scratch_rsi := True\<rparr>)) ''buy_threshold''
       = Some (JNum (buy_threshold w))
   \<and> map_of (payload ss (w\<lparr>strategy := ''ZEN'', use_scratch_rsi := True\<rparr>)) ''sell_threshold''
       = Some (JNum (sell_threshold w))
   \<and> map_of (payload (ss\<lparr>selected_symbol := None\<rparr>) w) ''symbol'' = Some (JStr ''BTC/USDT'')"
  by (simp add: payload_def payload_symbol_def)

end
